theory Spec2Isabelle
  imports Main "HOL-Library.Sublist"
begin

section \<open>Python strings\<close>

text \<open>
  A Python \<open>str\<close> is modelled as a \<open>string\<close>, a list of 8-bit characters read as the code
  points 0 to 255 (Latin-1). The string methods below agree with CPython on that range,
  except where a definition says otherwise.
  \<open>keyword in s\<close> on strings is \<open>sublist keyword s\<close> (a contiguous run), and
  \<open>s.startswith(p)\<close> is \<open>prefix p s\<close>.
\<close>

definition lower_char :: "char \<Rightarrow> char" where
  "lower_char c =
     (let n = (of_char c :: nat)
      in if (65 \<le> n \<and> n \<le> 90) \<or> (192 \<le> n \<and> n \<le> 222 \<and> n \<noteq> 215)
         then char_of (n + 32) else c)"

definition lower :: "string \<Rightarrow> string" where
  "lower s = map lower_char s"

section \<open>Project details and JSON values\<close>

text \<open>
  \<open>project_details\<close> is a dict with six fixed keys. A field is \<open>None\<close> when its key is
  absent, which is when \<open>dict.get\<close> returns its default.
\<close>

record ProjectDetails =
  project_description :: "string option"
  app_type :: "string option"
  team_skills :: "string list option"
  budget :: "string option"
  timeline :: "string option"
  scalability_needs :: "string option"

definition dict_get :: "'a option \<Rightarrow> 'a \<Rightarrow> 'a" where
  "dict_get field dflt = (case field of None \<Rightarrow> dflt | Some v \<Rightarrow> v)"

text \<open>
  The values a recommendation is built from: what \<open>json.loads\<close> produces, and what the
  rule table writes as dict and list literals. A dict keeps its keys in insertion order.
  A float is kept as the text of its literal.
\<close>

datatype json =
    JNull
  | JBool bool
  | JInt int
  | JFloat string
  | JStr string
  | JArr "json list"
  | JObj "(string \<times> json) list"

text \<open>
  The dict a pre-check returns: either the key \<open>recommendations\<close> with \<open>source\<close>, or the
  keys \<open>error\<close>, \<open>details\<close> and \<open>source\<close>.
\<close>

datatype rule_result =
    Direct (recommendations: "json list") (direct_source: string)
  | RuleError (error: string) (details: string) (error_source: string)

section \<open>rules.py\<close>

definition static_site_keywords :: "string list" where
  "static_site_keywords = [''static site'', ''brochure website'', ''portfolio'', ''landing page'']"

definition backend_skills :: "string list" where
  "backend_skills = [''node.js'', ''python'', ''java'', ''go'', ''ruby'', ''php'', ''c#'']"

definition complex_keywords :: "string list" where
  "complex_keywords = [''enterprise system'', ''large scale platform'', ''many complex features'']"

definition jamstack_recommendation :: json where
  "jamstack_recommendation = JObj
     [(''stack_name'', JStr ''JAMstack (e.g., Astro / Eleventy / Hugo / Next.js static export)''),
      (''core_components'',
         JArr [JStr ''Static Site Generator'', JStr ''CDN (Netlify, Vercel, GitHub Pages)'']),
      (''justification'', JStr
         ''For simple, static content with low budget and fast timeline, JAMstack offers optimal performance, security, and low cost.''),
      (''pros'',
         JArr [JStr ''Excellent performance'', JStr ''High security'', JStr ''Low hosting costs'',
               JStr ''Good developer experience'']),
      (''cons'',
         JArr [JStr ''Not suitable for dynamic server-side logic without workarounds (serverless functions)'',
               JStr ''Build times can increase for very large sites''])]"

definition static_site_verdict :: rule_result where
  "static_site_verdict = Direct [jamstack_recommendation] ''Rule-Based Pre-check''"

definition contradictory_input_verdict :: rule_result where
  "contradictory_input_verdict = RuleError ''Contradictory Input''
     ''High scalability typically requires a robust backend. Please clarify if a backend is needed or adjust scalability expectations.''
     ''Rule-Based Pre-check''"

definition unrealistic_scope_verdict :: rule_result where
  "unrealistic_scope_verdict = RuleError ''Potentially Unrealistic Scope''
     ''A complex project with a very short timeline and limited budget/expertise is challenging. Consider adjusting scope, timeline, or budget.''
     ''Rule-Based Pre-check''"

text \<open>
  \<open>apply_pre_checks\<close>: the six locals are read with \<open>dict.get\<close> and lowercased, then the three
  rules are tried in the order of the source. \<open>None\<close> is Python's \<open>None\<close>: no rule triggered.
\<close>

definition apply_pre_checks :: "ProjectDetails \<Rightarrow> rule_result option" where
  "apply_pre_checks pd =
     (let app = lower (dict_get (app_type pd) '''');
          description = lower (dict_get (project_description pd) '''');
          scalability = lower (dict_get (scalability_needs pd) '''');
          bud = lower (dict_get (budget pd) '''');
          tl = lower (dict_get (timeline pd) '''');
          skills = map lower (dict_get (team_skills pd) [])
      in if list_ex (\<lambda>keyword. sublist keyword app \<or> sublist keyword description)
              static_site_keywords
            \<and> scalability \<in> set [''low'', '''']
            \<and> bud = ''low''
            \<and> prefix ''very short'' tl
         then Some static_site_verdict
         else if scalability \<in> set [''high'', ''very high'']
            \<and> (sublist ''no backend'' description
               \<or> sublist ''frontend only'' app
               \<or> \<not> list_ex (\<lambda>skill. skill \<in> set backend_skills)
                     (filter (\<lambda>skill. ''none'' \<notin> set skills) skills))
         then Some contradictory_input_verdict
         else if list_ex (\<lambda>keyword. sublist keyword description) complex_keywords
            \<and> (prefix ''very short'' tl \<or> prefix ''short'' tl)
            \<and> (bud = ''low'' \<or> ''none'' \<in> set skills \<or> skills = [])
         then Some unrealistic_scope_verdict
         else None)"

text \<open>
  The condition of each rule on its own, as the source writes it in its three \<open>if\<close>
  statements, and the rule table in the source's order.
\<close>

definition static_site_rule :: "ProjectDetails \<Rightarrow> bool" where
  "static_site_rule pd =
     (list_ex (\<lambda>keyword. sublist keyword (lower (dict_get (app_type pd) ''''))
                         \<or> sublist keyword (lower (dict_get (project_description pd) '''')))
        static_site_keywords
      \<and> lower (dict_get (scalability_needs pd) '''') \<in> set [''low'', '''']
      \<and> lower (dict_get (budget pd) '''') = ''low''
      \<and> prefix ''very short'' (lower (dict_get (timeline pd) '''')))"

definition scalability_contradiction_rule :: "ProjectDetails \<Rightarrow> bool" where
  "scalability_contradiction_rule pd =
     (let skills = map lower (dict_get (team_skills pd) [])
      in lower (dict_get (scalability_needs pd) '''') \<in> set [''high'', ''very high'']
         \<and> (sublist ''no backend'' (lower (dict_get (project_description pd) ''''))
            \<or> sublist ''frontend only'' (lower (dict_get (app_type pd) ''''))
            \<or> \<not> list_ex (\<lambda>skill. skill \<in> set backend_skills)
                  (filter (\<lambda>skill. ''none'' \<notin> set skills) skills)))"

definition scope_contradiction_rule :: "ProjectDetails \<Rightarrow> bool" where
  "scope_contradiction_rule pd =
     (let skills = map lower (dict_get (team_skills pd) []);
          tl = lower (dict_get (timeline pd) '''')
      in list_ex (\<lambda>keyword. sublist keyword (lower (dict_get (project_description pd) '''')))
           complex_keywords
         \<and> (prefix ''very short'' tl \<or> prefix ''short'' tl)
         \<and> (lower (dict_get (budget pd) '''') = ''low'' \<or> ''none'' \<in> set skills \<or> skills = []))"

definition rule_table :: "((ProjectDetails \<Rightarrow> bool) \<times> rule_result) list" where
  "rule_table =
     [(static_site_rule, static_site_verdict),
      (scalability_contradiction_rule, contradictory_input_verdict),
      (scope_contradiction_rule, unrealistic_scope_verdict)]"

text \<open>The specification's evaluator: the verdict of the first rule of the table that applies.\<close>

definition first_match :: "ProjectDetails \<Rightarrow> rule_result option" where
  "first_match pd = map_option snd (find (\<lambda>(applies, verdict). applies pd) rule_table)"

text \<open>
  The specification's wording of rule 2: high scalability, and no backend in the description,
  a frontend-only application type, or no backend-capable skill in the lowercased list.
\<close>

definition spec_contradiction_condition :: "ProjectDetails \<Rightarrow> bool" where
  "spec_contradiction_condition pd =
     (lower (dict_get (scalability_needs pd) '''') \<in> set [''high'', ''very high'']
      \<and> (sublist ''no backend'' (lower (dict_get (project_description pd) ''''))
         \<or> sublist ''frontend only'' (lower (dict_get (app_type pd) ''''))
         \<or> \<not> list_ex (\<lambda>skill. skill \<in> set backend_skills)
               (map lower (dict_get (team_skills pd) []))))"

text \<open>The form's initial values (App.py), and the inputs the theorems are run on.\<close>

definition form_defaults :: ProjectDetails where
  "form_defaults =
     \<lparr>project_description = Some '''', app_type = Some ''Web Application'',
      team_skills = Some [], budget = Some ''Medium'',
      timeline = Some ''Medium (3-6 months)'', scalability_needs = Some ''Medium''\<rparr>"

definition python_and_none_team :: ProjectDetails where
  "python_and_none_team =
     form_defaults\<lparr>team_skills := Some [''Python'', ''None''], scalability_needs := Some ''High''\<rparr>"

definition react_only_team :: ProjectDetails where
  "react_only_team =
     form_defaults\<lparr>team_skills := Some [''React''], scalability_needs := Some ''Very High''\<rparr>"

definition portfolio_site :: ProjectDetails where
  "portfolio_site =
     form_defaults\<lparr>project_description := Some ''A Portfolio of my photos'',
       budget := Some ''Low'', timeline := Some ''Very Short (Under 1 month)'',
       scalability_needs := Some ''Low''\<rparr>"

definition enterprise_portfolio :: ProjectDetails where
  "enterprise_portfolio =
     portfolio_site\<lparr>project_description := Some ''Portfolio page of an Enterprise System''\<rparr>"

definition enterprise_no_backend :: ProjectDetails where
  "enterprise_no_backend =
     form_defaults\<lparr>project_description := Some ''Enterprise system with no backend'',
       team_skills := Some [''Python''], budget := Some ''Low'',
       timeline := Some ''Short (1-3 months)'', scalability_needs := Some ''High''\<rparr>"

section \<open>recommender.py: reading the model's output\<close>

text \<open>
  \<open>str.strip()\<close> removes the characters for which \<open>str.isspace()\<close> holds from both ends:
  below 256 these are tab to carriage return, the four separators 28 to 31, the space, NEL (133)
  and the no-break space (160).
\<close>

definition isspace :: "char \<Rightarrow> bool" where
  "isspace c = ((of_char c :: nat) \<in> set [9, 10, 11, 12, 13, 28, 29, 30, 31, 32, 133, 160])"

definition strip :: "string \<Rightarrow> string" where
  "strip s = rev (dropWhile isspace (rev (dropWhile isspace s)))"

text \<open>
  \<open>s.find(c)\<close> and \<open>s.rfind(c)\<close> for a one-character \<open>c\<close>: the index of the first and of the
  last occurrence, -1 when there is none.
\<close>

definition py_find :: "string \<Rightarrow> char \<Rightarrow> int" where
  "py_find s c = (if c \<in> set s then int (length (takeWhile (\<lambda>x. x \<noteq> c) s)) else - 1)"

definition py_rfind :: "string \<Rightarrow> char \<Rightarrow> int" where
  "py_rfind s c =
     (if c \<in> set s then int (length s) - 1 - int (length (takeWhile (\<lambda>x. x \<noteq> c) (rev s)))
      else - 1)"

text \<open>
  \<open>s[i:j]\<close> for indices that are not negative, the only ones the source slices with.
\<close>

definition slice :: "string \<Rightarrow> int \<Rightarrow> int \<Rightarrow> string" where
  "slice s i j = take (nat j - nat i) (drop (nat i) s)"

text \<open>
  An exception that reaches the handlers of \<open>get_llm_chain_response\<close>: a
  \<open>json.JSONDecodeError\<close> with its message \<open>str(e)\<close>, or any other \<open>Exception\<close> with its
  type name and message.
\<close>

datatype exn = JSONDecodeError string | OtherException string string

text \<open>
  The dict \<open>get_llm_chain_response\<close> returns: the keys \<open>recommendations\<close> and \<open>source\<close>, or
  \<open>error\<close> and \<open>details\<close> with \<open>raw_text_fallback\<close> and \<open>source\<close> where the source sets them.
\<close>

datatype response =
    Recommendations "json list" string
  | Failure (code: string) (failure_details: string)
      (raw_text_fallback: "string option") (failure_source: "string option")

text \<open>
  The body of the \<open>try\<close> from the line that strips the output. \<open>json.loads\<close> is the
  standard library's: it is the parameter \<open>json_loads\<close>, which returns the decoded value or
  the exception it raises.
\<close>

definition parse_output :: "(string \<Rightarrow> exn + json) \<Rightarrow> string \<Rightarrow> exn + response" where
  "parse_output json_loads raw_llm_output =
     (let cleaned_output = strip raw_llm_output;
          json_start = py_find cleaned_output CHR ''['';
          json_end = py_rfind cleaned_output CHR '']'' + 1
      in if json_start \<noteq> - 1 \<and> json_end \<noteq> 0 \<and> json_end > json_start
         then (case json_loads (slice cleaned_output json_start json_end) of
                 Inl e \<Rightarrow> Inl e
               | Inr parsed_recommendations \<Rightarrow>
                   (case parsed_recommendations of
                      JArr items \<Rightarrow> Inr (Recommendations items ''LLM via LangChain'')
                    | _ \<Rightarrow> Inl (OtherException ''ValueError''
                                 ''LLM output was valid JSON, but not a list.'')))
         else Inr (Failure ''LLM_RESPONSE_NOT_JSON_ARRAY''
                     ''LLM did not return a parseable JSON array. Displaying raw text.''
                     (Some cleaned_output) (Some ''LLM via LangChain'')))"

text \<open>The two \<open>except\<close> clauses, with the value \<open>raw_llm_output\<close> has when they run.\<close>

definition handle_exception :: "exn \<Rightarrow> string \<Rightarrow> response" where
  "handle_exception e raw_llm_output =
     (case e of
        JSONDecodeError msg \<Rightarrow>
          Failure ''LLM_JSON_PARSE_ERROR''
            (''Failed to parse LLM output as JSON. Error: '' @ msg
               @ ''. Raw output was: \<newline>'' @ raw_llm_output)
            (Some raw_llm_output) None
      | OtherException type_name msg \<Rightarrow>
          Failure ''LLM_CHAIN_ERROR''
            (''An unexpected error occurred: '' @ type_name @ '' - '' @ msg)
            (Some raw_llm_output) None)"

text \<open>
  The response normalizer: what \<open>get_llm_chain_response\<close> returns once the chain has
  produced \<open>raw_llm_output\<close>.
\<close>

definition normalize :: "(string \<Rightarrow> exn + json) \<Rightarrow> string \<Rightarrow> response" where
  "normalize json_loads raw_llm_output =
     (case parse_output json_loads raw_llm_output of
        Inl e \<Rightarrow> handle_exception e raw_llm_output
      | Inr result \<Rightarrow> result)"

text \<open>The substring handed to \<open>json.loads\<close> when both brackets are found in order.\<close>

definition bracket_span :: "string \<Rightarrow> string" where
  "bracket_span raw_llm_output =
     (let cleaned_output = strip raw_llm_output
      in slice cleaned_output (py_find cleaned_output CHR ''['')
           (py_rfind cleaned_output CHR '']'' + 1))"

text \<open>
  The specification's name for the result with code \<open>LLM_RESPONSE_NOT_JSON_ARRAY\<close>, which
  keeps the trimmed text.
\<close>

definition UnparsedFallback :: "string \<Rightarrow> response" where
  "UnparsedFallback trimmed_text =
     Failure ''LLM_RESPONSE_NOT_JSON_ARRAY''
       ''LLM did not return a parseable JSON array. Displaying raw text.''
       (Some trimmed_text) (Some ''LLM via LangChain'')"

text \<open>
  Stand-ins for \<open>json.loads\<close>, each the constant function to what \<open>json.loads\<close> does
  on the one span it is given in the theorems below: on \<open>[{bad json}]\<close> it raises
  \<open>JSONDecodeError\<close> with this message; on a text that opens 993 arrays it raises
  \<open>RecursionError\<close> (CPython 3.11 with its default recursion limit of 1000).
\<close>

definition decoder_rejecting :: "string \<Rightarrow> exn + json" where
  "decoder_rejecting s =
     Inl (JSONDecodeError
            ''Expecting property name enclosed in double quotes: line 1 column 3 (char 2)'')"

definition decoder_out_of_stack :: "string \<Rightarrow> exn + json" where
  "decoder_out_of_stack s =
     Inl (OtherException ''RecursionError''
            ''maximum recursion depth exceeded while decoding a JSON array from a unicode string'')"

text \<open>Model outputs on which the theorems about the normalizer are run.\<close>

definition bad_json_reply :: string where
  "bad_json_reply = '' [{bad json}]''"

definition prose_reply :: string where
  "prose_reply = ''  Sorry, I can only answer in prose.\<newline>''"

definition deep_nesting :: string where
  "deep_nesting = replicate 993 CHR ''['' @ '']''"

section \<open>recommender.py: composing the prompt\<close>

text \<open>
  A value of the \<open>project_details\<close> dict: a string, or the list of strings of
  \<open>team_skills\<close>. \<open>dict_items\<close> is \<open>project_details.items()\<close>: the keys that are present,
  in the order in which App.py creates them; assigning to an existing key keeps its place.
\<close>

datatype pyval = PStr string | PList "string list"

definition dict_items :: "ProjectDetails \<Rightarrow> (string \<times> pyval) list" where
  "dict_items pd =
     (case project_description pd of None \<Rightarrow> [] | Some v \<Rightarrow> [(''project_description'', PStr v)])
     @ (case app_type pd of None \<Rightarrow> [] | Some v \<Rightarrow> [(''app_type'', PStr v)])
     @ (case team_skills pd of None \<Rightarrow> [] | Some v \<Rightarrow> [(''team_skills'', PList v)])
     @ (case budget pd of None \<Rightarrow> [] | Some v \<Rightarrow> [(''budget'', PStr v)])
     @ (case timeline pd of None \<Rightarrow> [] | Some v \<Rightarrow> [(''timeline'', PStr v)])
     @ (case scalability_needs pd of None \<Rightarrow> [] | Some v \<Rightarrow> [(''scalability_needs'', PStr v)])"

text \<open>\<open>sep.join(parts)\<close>.\<close>

fun join :: "string \<Rightarrow> string list \<Rightarrow> string" where
  "join sep [] = []"
| "join sep [part] = part"
| "join sep (part # others) = part @ sep @ join sep others"

text \<open>\<open>key.replace('_', ' ')\<close>.\<close>

definition replace_underscores :: "string \<Rightarrow> string" where
  "replace_underscores key = map (\<lambda>c. if c = CHR ''_'' then CHR '' '' else c) key"

text \<open>
  \<open>str.capitalize()\<close> (CPython 3.8 and later): the first character in title case, the rest
  lowercased. Below 256 the title case of a small letter is the letter 32 places before it,
  and that of the sharp s (223) is \<open>Ss\<close>. The capitals of the micro sign (181) and of y with
  diaeresis (255) lie beyond 255; the model leaves these two unchanged, and no key of
  \<open>project_details\<close> begins with them.
\<close>

definition title_first :: "char \<Rightarrow> string" where
  "title_first c =
     (let n = (of_char c :: nat)
      in if (97 \<le> n \<and> n \<le> 122) \<or> (224 \<le> n \<and> n \<le> 254 \<and> n \<noteq> 247)
         then [char_of (n - 32)]
         else if n = 223 then ''Ss'' else [c])"

definition capitalize :: "string \<Rightarrow> string" where
  "capitalize s = (case s of [] \<Rightarrow> [] | c # rest \<Rightarrow> title_first c @ lower rest)"

text \<open>
  \<open>repr\<close> of a string, as the f-string renders the elements of a list: single quotes
  unless the string has a single quote and no double quote; the quote and the backslash are
  escaped, tab, newline and carriage return are written \<open>\t\<close>, \<open>\n\<close>, \<open>\r\<close>, and any other
  character that is not printable is written \<open>\xNN\<close>.
\<close>

definition isprintable :: "char \<Rightarrow> bool" where
  "isprintable c =
     (let n = (of_char c :: nat)
      in (32 \<le> n \<and> n \<le> 126) \<or> (161 \<le> n \<and> n \<le> 255 \<and> n \<noteq> 173))"

definition hex_digit :: "nat \<Rightarrow> char" where
  "hex_digit k = ''0123456789abcdef'' ! (k mod 16)"

definition repr_char :: "char \<Rightarrow> char \<Rightarrow> string" where
  "repr_char quote c =
     (if c = quote \<or> c = CHR 0x5C then [CHR 0x5C, c]
      else if c = CHR 0x09 then [CHR 0x5C, CHR ''t'']
      else if c = CHR 0x0A then [CHR 0x5C, CHR ''n'']
      else if c = CHR 0x0D then [CHR 0x5C, CHR ''r'']
      else if \<not> isprintable c
        then [CHR 0x5C, CHR ''x'', hex_digit (of_char c div 16), hex_digit (of_char c)]
      else [c])"

definition py_repr :: "string \<Rightarrow> string" where
  "py_repr s =
     (let quote = (if CHR 0x27 \<in> set s \<and> CHR 0x22 \<notin> set s then CHR 0x22 else CHR 0x27)
      in [quote] @ concat (map (repr_char quote) s) @ [quote])"

text \<open>What \<open>{value}\<close> in an f-string renders: \<open>str(value)\<close>.\<close>

definition py_format :: "pyval \<Rightarrow> string" where
  "py_format value =
     (case value of
        PStr s \<Rightarrow> s
      | PList parts \<Rightarrow> ''['' @ join '', '' (map py_repr parts) @ '']'')"

text \<open>The local \<open>context_summary\<close> of \<open>format_user_input_with_context\<close>.\<close>

definition context_summary :: "ProjectDetails \<Rightarrow> string" where
  "context_summary project_details =
     join ''\<newline>''
       (map (\<lambda>(key, value).
               ''- '' @ capitalize (replace_underscores key) @ '': '' @ py_format value)
          (dict_items project_details))"

text \<open>
  \<open>SYSTEM_PROMPT_LANGCHAIN.format(project_context_summary=...)\<close>: the template's text
  before and after its one placeholder.
\<close>

definition system_prompt_head :: string where
  \<open>system_prompt_head =
     ''\<newline>You are an expert AI Tech Stack Advisor. Your task is to analyze the user's project requirements\<newline>''
   @ ''and recommend up to three suitable technology stacks. Your recommendations must be thorough,\<newline>''
   @ ''well-justified, and directly address the user's inputs. Consider the conversation history for follow-up questions.\<newline>''
   @ ''\<newline>''
   @ ''Current Project Context (if provided by user, otherwise assume this is the first interaction):\<newline>''\<close>

definition system_prompt_tail :: string where
  \<open>system_prompt_tail =
     ''\<newline>\<newline>Instructions for your response:\<newline>''
   @ ''1. If the user asks a follow-up question, prioritize answering that question in the context of previous recommendations OR if the new input significantly changes criteria, provide new recommendations.\<newline>''
   @ ''2. Structure your entire response as a single JSON array. Each element in the array\<newline>''
   @ ''   should be a JSON object representing one technology stack recommendation, containing the\<newline>''
   @ ''   following keys:\<newline>''
   @ ''   - "stack_name": A descriptive name for the tech stack.\<newline>''
   @ ''   - "core_components": A list of strings detailing the main technologies.\<newline>''
   @ ''   - "justification": A detailed explanation of why this stack is a good fit, referencing user inputs and conversation history.\<newline>''
   @ ''   - "pros": A list of key advantages.\<newline>''
   @ ''   - "cons": A list of key disadvantages or trade-offs.\<newline>''
   @ ''   - "addressed_follow_up": (Optional string) Briefly mention if/how this response addresses a follow-up from the user.\<newline>''
   @ ''3. If providing initial recommendations, be comprehensive. If answering a follow-up, be concise and targeted if possible.\<newline>''\<close>

definition SYSTEM_PROMPT_LANGCHAIN :: "string \<Rightarrow> string" where
  "SYSTEM_PROMPT_LANGCHAIN project_context_summary =
     system_prompt_head @ project_context_summary @ system_prompt_tail"

definition format_user_input_with_context :: "ProjectDetails \<Rightarrow> string \<Rightarrow> string" where
  \<open>format_user_input_with_context project_details user_query =
     (let summary = context_summary project_details
      in ''\<newline>    System Instructions:\<newline>    ''
         @ SYSTEM_PROMPT_LANGCHAIN summary
         @ ''\<newline>\<newline>    User's Current Request/Context:\<newline>''
         @ ''    The overall project context is as follows:\<newline>    ''
         @ summary
         @ ''\<newline>    \<newline>    User's specific question for this turn: "''
         @ (if user_query \<noteq> [] then user_query
            else ''Provide initial tech stack recommendations based on the context above.'')
         @ ''"\<newline>\<newline>    Please provide your recommendations or answer in the specified JSON format.\<newline>    '')\<close>

text \<open>
  The specification's field name: each word of the key capitalized, as \<open>App Type\<close>.
\<close>

fun title_words :: "bool \<Rightarrow> string \<Rightarrow> string" where
  "title_words word_start [] = []"
| "title_words word_start (c # rest) =
     (if c = CHR '' '' then c # title_words True rest
      else (if word_start then title_first c else [lower_char c]) @ title_words False rest)"

definition title_case :: "string \<Rightarrow> string" where
  "title_case s = title_words True s"

text \<open>The lines of a text: its pieces between newline characters.\<close>

fun split_lines :: "string \<Rightarrow> string list" where
  "split_lines [] = [[]]"
| "split_lines (c # rest) =
     (if c = CHR 0x0A then [] # split_lines rest
      else (case split_lines rest of
              [] \<Rightarrow> [[c]]
            | line # others \<Rightarrow> (c # line) # others))"

section \<open>recommender.py: memory and the chain\<close>

text \<open>
  A conversation turn: the input handed to the chain and the text the model answered.
\<close>

type_synonym turn = "string \<times> string"

text \<open>
  Modelled from the spec: the memory window is LangChain's \<open>ConversationBufferWindowMemory\<close>,
  a library class that is not among the sources; \<open>get_llm_and_memory\<close> only constructs it,
  with \<open>k=5\<close>. The window is the ordered sequence of the last \<open>K\<close> turns; appending a turn
  beyond \<open>K\<close> evicts the oldest; the order kept is the order exposed as chat history.
\<close>

definition K :: nat where
  "K = 5"

definition save_context :: "'a list \<Rightarrow> 'a \<Rightarrow> 'a list" where
  "save_context window t = (let extended = window @ [t] in drop (length extended - K) extended)"

definition chat_history :: "'a list \<Rightarrow> 'a list" where
  "chat_history window = window"

text \<open>
  The hosted model: from the chat history and the composed input, the text of the reply or
  the exception of a failed call.
\<close>

type_synonym llm = "turn list \<Rightarrow> string \<Rightarrow> exn + string"

text \<open>
  Modelled from the spec: \<open>chain.invoke\<close> is LangChain's \<open>LLMChain\<close> with a memory, also a
  library class. It passes the window as chat history with the input to the model, and on
  success appends the exchange to the window; the reply is the value of the key \<open>text\<close>.
\<close>

definition chain_invoke :: "llm \<Rightarrow> turn list \<Rightarrow> string \<Rightarrow> (exn + string) \<times> turn list" where
  "chain_invoke model memory user_full_input =
     (case model (chat_history memory) user_full_input of
        Inl e \<Rightarrow> (Inl e, memory)
      | Inr text \<Rightarrow> (Inr text, save_context memory (user_full_input, text)))"

text \<open>
  What a call of \<open>get_llm_chain_response\<close> leaves behind: the dict it returns, the memory,
  the two debugging entries it writes to \<open>st.session_state\<close> (when it reaches those lines),
  and the inputs it sent to the model.
\<close>

record chain_result =
  package :: response
  memory_after :: "turn list"
  raw_output_written :: "string option"
  formatted_input_written :: "string option"
  prompts_sent :: "string list"

definition get_llm_chain_response ::
  "(string \<Rightarrow> exn + json) \<Rightarrow> llm option \<Rightarrow> turn list \<Rightarrow> ProjectDetails \<Rightarrow> string \<Rightarrow> chain_result"
where
  "get_llm_chain_response json_loads model_opt memory project_details user_query =
     (case model_opt of
        None \<Rightarrow>
          \<lparr>package = Failure ''LLM_NOT_INITIALIZED'' ''LLM client could not be set up.'' None None,
           memory_after = memory, raw_output_written = None, formatted_input_written = None,
           prompts_sent = []\<rparr>
      | Some model \<Rightarrow>
          (let formatted_input = format_user_input_with_context project_details user_query
           in case chain_invoke model memory formatted_input of
                (Inl e, memory') \<Rightarrow>
                  \<lparr>package = handle_exception e '''',
                   memory_after = memory', raw_output_written = None,
                   formatted_input_written = None, prompts_sent = [formatted_input]\<rparr>
              | (Inr raw_llm_output, memory') \<Rightarrow>
                  \<lparr>package = normalize json_loads raw_llm_output,
                   memory_after = memory', raw_output_written = Some raw_llm_output,
                   formatted_input_written = Some formatted_input,
                   prompts_sent = [formatted_input]\<rparr>))"

section \<open>App.py: one chat turn\<close>

text \<open>
  The content of a displayed message: a text, a list of recommendations, or the fallback dict.
\<close>

datatype content = Text string | RecommendationList "json list" | FallbackPackage response

type_synonym message = "string \<times> content"

text \<open>
  \<open>st.session_state\<close>: the project details, the model client and the memory (absent when
  their keys are), the displayed messages and the two debugging entries.
\<close>

record session =
  st_project_details :: ProjectDetails
  st_llm :: "llm option"
  st_memory :: "turn list option"
  st_messages :: "message list"
  st_last_llm_raw_output :: "string option"
  st_last_llm_formatted_input :: "string option"

text \<open>
  What a turn does besides changing the session, in order: the Streamlit calls that show
  something (\<open>StSuccess\<close> is the fixed banner of a rule-based recommendation), a call of the
  model with its input, and \<open>st.rerun()\<close>.
\<close>

datatype effect =
    Markdown string
  | StError string
  | StSuccess
  | StWarning string
  | TextArea string
  | ModelCall string
  | Rerun

record turn_outcome =
  effects :: "effect list"
  state :: session
  raised :: "exn option"

text \<open>\<open>d[key] = value\<close> on a dict: an existing key keeps its place, a new key goes last.\<close>

fun dict_set :: "(string \<times> json) list \<Rightarrow> string \<Rightarrow> json \<Rightarrow> (string \<times> json) list" where
  "dict_set [] key v = [(key, v)]"
| "dict_set ((k, old) # rest) key v =
     (if k = key then (k, v) # rest else (k, old) # dict_set rest key v)"

text \<open>
  The loop \<open>for rec_item in response_data: rec_item["source"] = ...\<close>. An item that is not
  a dict raises \<open>TypeError\<close>, which nothing catches.
\<close>

definition item_assignment_error :: "json \<Rightarrow> exn" where
  "item_assignment_error item =
     OtherException ''TypeError''
       (case item of
          JArr xs \<Rightarrow> ''list indices must be integers or slices, not str''
        | JNull \<Rightarrow> [CHR 0x27] @ ''NoneType'' @ [CHR 0x27] @ '' object does not support item assignment''
        | JBool b \<Rightarrow> [CHR 0x27] @ ''bool'' @ [CHR 0x27] @ '' object does not support item assignment''
        | JInt i \<Rightarrow> [CHR 0x27] @ ''int'' @ [CHR 0x27] @ '' object does not support item assignment''
        | JFloat f \<Rightarrow> [CHR 0x27] @ ''float'' @ [CHR 0x27] @ '' object does not support item assignment''
        | _ \<Rightarrow> [CHR 0x27] @ ''str'' @ [CHR 0x27] @ '' object does not support item assignment'')"

fun set_source :: "string \<Rightarrow> json list \<Rightarrow> exn + json list" where
  "set_source src [] = Inr []"
| "set_source src (JObj entries # rest) =
     (case set_source src rest of
        Inl e \<Rightarrow> Inl e
      | Inr done \<Rightarrow> Inr (JObj (dict_set entries ''source'' (JStr src)) # done))"
| "set_source src (other # rest) = Inl (item_assignment_error other)"

text \<open>
  The end of the turn: a non-empty list of recommendations is appended to the messages and
  the script reruns.
\<close>

definition display_structured :: "json list option \<Rightarrow> effect list \<Rightarrow> session \<Rightarrow> turn_outcome" where
  "display_structured response_data shown s =
     (case response_data of
        Some (item # rest) \<Rightarrow>
          \<lparr>effects = shown @ [Rerun],
           state = s\<lparr>st_messages := st_messages s @ [(''assistant'', RecommendationList (item # rest))]\<rparr>,
           raised = None\<rparr>
      | _ \<Rightarrow> \<lparr>effects = shown, state = s, raised = None\<rparr>)"

text \<open>
  The handler of a chat input, from \<open>if user_query:\<close> to the end of the block. The rule
  evaluator runs first; the \<open>else\<close> of \<open>if rule_result:\<close> alone reaches the model.
\<close>

definition chat_turn :: "(string \<Rightarrow> exn + json) \<Rightarrow> string \<Rightarrow> session \<Rightarrow> turn_outcome" where
  "chat_turn json_loads user_query s0 =
     (if user_query = [] then \<lparr>effects = [], state = s0, raised = None\<rparr>
      else
        let s = s0\<lparr>st_messages := st_messages s0 @ [(''user'', Text user_query)]\<rparr>;
            shown = [Markdown user_query];
            current_project_details = st_project_details s
        in case apply_pre_checks current_project_details of
             Some rule_result \<Rightarrow>
               (case rule_result of
                  RuleError err det src \<Rightarrow>
                    (let error_message = ''**Rule-Based Check Failed:** '' @ err @ '' - '' @ det
                     in display_structured None (shown @ [StError error_message])
                          (s\<lparr>st_messages := st_messages s @ [(''assistant'', Text error_message)]\<rparr>))
                | Direct recs src \<Rightarrow>
                    (case set_source src recs of
                       Inl e \<Rightarrow> \<lparr>effects = shown @ [StSuccess], state = s, raised = Some e\<rparr>
                     | Inr response_data \<Rightarrow>
                         display_structured (Some response_data) (shown @ [StSuccess]) s))
           | None \<Rightarrow>
               (case (st_llm s, st_memory s) of
                  (Some model, Some memory) \<Rightarrow>
                    (let r = get_llm_chain_response json_loads (Some model) memory
                               current_project_details user_query;
                         s' = s\<lparr>st_memory := Some (memory_after r),
                                st_last_llm_raw_output :=
                                  (case raw_output_written r of
                                     None \<Rightarrow> st_last_llm_raw_output s | Some v \<Rightarrow> Some v),
                                st_last_llm_formatted_input :=
                                  (case formatted_input_written r of
                                     None \<Rightarrow> st_last_llm_formatted_input s | Some v \<Rightarrow> Some v)\<rparr>;
                         shown' = shown @ map ModelCall (prompts_sent r)
                     in case package r of
                          Recommendations recs src \<Rightarrow>
                            (case set_source src recs of
                               Inl e \<Rightarrow> \<lparr>effects = shown', state = s', raised = Some e\<rparr>
                             | Inr response_data \<Rightarrow>
                                 display_structured (Some response_data) shown' s')
                        | Failure err det raw src \<Rightarrow>
                            (case raw of
                               Some raw_text \<Rightarrow>
                                 display_structured None
                                   (shown' @ [StWarning (''AI Response (Fallback): '' @ det),
                                              TextArea raw_text])
                                   (s'\<lparr>st_messages := st_messages s'
                                         @ [(''assistant'', FallbackPackage (package r))]\<rparr>)
                             | None \<Rightarrow>
                                 (let error_message = ''**AI Agent Error:** '' @ err @ '' - '' @ det
                                  in display_structured None (shown' @ [StError error_message])
                                       (s'\<lparr>st_messages := st_messages s'
                                             @ [(''assistant'', Text error_message)]\<rparr>))))
                | _ \<Rightarrow>
                    (let no_llm_error = ''LLM or Memory not initialized. Cannot proceed.''
                     in display_structured None (shown @ [StError no_llm_error])
                          (s\<lparr>st_messages := st_messages s @ [(''assistant'', Text no_llm_error)]\<rparr>))))"

text \<open>Whether an effect is a call of the model.\<close>

fun is_model_call :: "effect \<Rightarrow> bool" where
  "is_model_call (ModelCall prompt) = True"
| "is_model_call other = False"

text \<open>What the turn stores as the assistant's message for a rule verdict.\<close>

definition verdict_content :: "rule_result \<Rightarrow> content" where
  "verdict_content verdict =
     (case verdict of
        RuleError err det src \<Rightarrow> Text (''**Rule-Based Check Failed:** '' @ err @ '' - '' @ det)
      | Direct recs src \<Rightarrow>
          RecommendationList (map (\<lambda>item. case item of
                                      JObj entries \<Rightarrow> JObj (dict_set entries ''source'' (JStr src))
                                    | other \<Rightarrow> other) recs))"

text \<open>Sessions and a model on which the theorems about a turn are run.\<close>

definition scripted_model :: llm where
  "scripted_model history prompt = Inr ''[]''"

definition fresh_session :: "ProjectDetails \<Rightarrow> session" where
  "fresh_session pd =
     \<lparr>st_project_details = pd, st_llm = Some scripted_model, st_memory = Some [],
      st_messages = [], st_last_llm_raw_output = None, st_last_llm_formatted_input = None\<rparr>"

section \<open>The rule evaluator\<close>

lemma apply_pre_checks_cascade:
  "apply_pre_checks pd =
     (if static_site_rule pd then Some static_site_verdict
      else if scalability_contradiction_rule pd then Some contradictory_input_verdict
      else if scope_contradiction_rule pd then Some unrealistic_scope_verdict
      else None)"
  unfolding apply_pre_checks_def static_site_rule_def scalability_contradiction_rule_def
    scope_contradiction_rule_def Let_def
  by (rule refl)

lemma list_ex_filter_const:
  "list_ex Q (filter (\<lambda>_. P) xs) = (P \<and> list_ex Q xs)"
  by (cases P) simp_all

lemma verdicts_distinct:
  "static_site_verdict \<noteq> contradictory_input_verdict"
  "static_site_verdict \<noteq> unrealistic_scope_verdict"
  "contradictory_input_verdict \<noteq> unrealistic_scope_verdict"
  "unrealistic_scope_verdict \<noteq> contradictory_input_verdict"
  by (simp_all add: static_site_verdict_def contradictory_input_verdict_def
      unrealistic_scope_verdict_def)

text \<open>
  Rules 1 and 2 never hold together: rule 1 needs the scalability \<open>low\<close> or empty, rule 2
  needs it \<open>high\<close> or \<open>very high\<close>.
\<close>

lemma static_site_excludes_contradiction:
  "static_site_rule pd \<Longrightarrow> \<not> scalability_contradiction_rule pd"
  by (auto simp: static_site_rule_def scalability_contradiction_rule_def Let_def)

text \<open>
  C6. When the lowercased application type or description contains one of the four static-site
  keywords, the scalability is Low or unset (the key absent or empty), the budget is Low and the
  timeline starts with Very Short (all compared after lowercasing, so the form's values
  \<open>Low\<close> and \<open>Very Short (Under 1 month)\<close> qualify), \<open>apply_pre_checks\<close> returns the
  one fixed JAMstack recommendation with source \<open>Rule-Based Pre-check\<close>.
\<close>

theorem static_site_shortcut:
  assumes "list_ex (\<lambda>keyword. sublist keyword (lower (dict_get (app_type pd) ''''))
                         \<or> sublist keyword (lower (dict_get (project_description pd) '''')))
        static_site_keywords"
    and "lower (dict_get (scalability_needs pd) '''') \<in> set [''low'', '''']"
    and "lower (dict_get (budget pd) '''') = ''low''"
    and "prefix ''very short'' (lower (dict_get (timeline pd) ''''))"
  shows "apply_pre_checks pd = Some (Direct [jamstack_recommendation] ''Rule-Based Pre-check'')"
  using assms
  by (simp add: apply_pre_checks_cascade static_site_rule_def static_site_verdict_def)

theorem static_site_shortcut_witness:
  "apply_pre_checks portfolio_site = Some (Direct [jamstack_recommendation] ''Rule-Based Pre-check'')
   \<and> apply_pre_checks (portfolio_site\<lparr>scalability_needs := None\<rparr>)
       = Some (Direct [jamstack_recommendation] ''Rule-Based Pre-check'')"
proof -
  have a: "list_ex (\<lambda>keyword. sublist keyword (lower (dict_get (app_type portfolio_site) ''''))
                \<or> sublist keyword (lower (dict_get (project_description portfolio_site) '''')))
             static_site_keywords"
    by code_simp
  have b: "lower (dict_get (scalability_needs portfolio_site) '''') \<in> set [''low'', '''']"
    by code_simp
  have c: "lower (dict_get (budget portfolio_site) '''') = ''low''"
    by code_simp
  have d: "prefix ''very short'' (lower (dict_get (timeline portfolio_site) ''''))"
    by code_simp
  let ?unset = "portfolio_site\<lparr>scalability_needs := None\<rparr>"
  have a': "list_ex (\<lambda>keyword. sublist keyword (lower (dict_get (app_type ?unset) ''''))
                \<or> sublist keyword (lower (dict_get (project_description ?unset) '''')))
             static_site_keywords"
    by code_simp
  have b': "lower (dict_get (scalability_needs ?unset) '''') \<in> set [''low'', '''']"
    by code_simp
  have c': "lower (dict_get (budget ?unset) '''') = ''low''"
    by code_simp
  have d': "prefix ''very short'' (lower (dict_get (timeline ?unset) ''''))"
    by code_simp
  show ?thesis
    using static_site_shortcut [OF a b c d] static_site_shortcut [OF a' b' c' d']
    by (rule conjI)
qed

text \<open>
  C7. \<open>apply_pre_checks\<close> returns the verdict of the first rule, in the order 1, 2, 3, whose
  condition holds, and nothing when none holds: it is the first match over the rule table.
  On an input that satisfies several rules the earliest one alone decides.
\<close>

theorem first_match_wins: "apply_pre_checks pd = first_match pd"
  by (simp add: apply_pre_checks_cascade first_match_def rule_table_def)

theorem first_match_wins_witness:
  "static_site_rule enterprise_portfolio \<and> scope_contradiction_rule enterprise_portfolio
   \<and> apply_pre_checks enterprise_portfolio = Some static_site_verdict
   \<and> scalability_contradiction_rule enterprise_no_backend
   \<and> scope_contradiction_rule enterprise_no_backend
   \<and> apply_pre_checks enterprise_no_backend = Some contradictory_input_verdict"
proof -
  have "static_site_rule enterprise_portfolio" "scope_contradiction_rule enterprise_portfolio"
    "scalability_contradiction_rule enterprise_no_backend"
    "scope_contradiction_rule enterprise_no_backend"
    by code_simp+
  moreover have "first_match enterprise_portfolio = Some static_site_verdict"
    by code_simp
  moreover have "first_match enterprise_no_backend = Some contradictory_input_verdict"
    by code_simp
  ultimately show ?thesis
    using first_match_wins [of enterprise_portfolio] first_match_wins [of enterprise_no_backend]
    by simp
qed

text \<open>
  C2, as the specification states it, fails: with scalability High and the skills Python and
  None, no static-site match, the evaluator returns the Contradictory Input error although the
  lowercased skill list contains \<open>python\<close>, so the stated right-hand side is false.
\<close>

theorem contradictory_input_counterexample:
  "\<not> static_site_rule python_and_none_team
   \<and> apply_pre_checks python_and_none_team = Some contradictory_input_verdict
   \<and> \<not> spec_contradiction_condition python_and_none_team"
  by code_simp

text \<open>
  C2, amended. For every input that does not match the static-site rule, \<open>apply_pre_checks\<close>
  returns the Contradictory Input error exactly when the lowercased scalability is
  \<open>high\<close> or \<open>very high\<close> and the lowercased description contains \<open>no backend\<close>, or the
  lowercased application type contains \<open>frontend only\<close>, or the lowercased skill list
  contains \<open>none\<close>, or it contains none of the seven backend skills.
\<close>

theorem contradictory_input_iff:
  assumes "\<not> static_site_rule pd"
  shows "apply_pre_checks pd = Some contradictory_input_verdict \<longleftrightarrow>
     lower (dict_get (scalability_needs pd) '''') \<in> set [''high'', ''very high'']
      \<and> (sublist ''no backend'' (lower (dict_get (project_description pd) ''''))
         \<or> sublist ''frontend only'' (lower (dict_get (app_type pd) ''''))
         \<or> ''none'' \<in> set (map lower (dict_get (team_skills pd) []))
         \<or> \<not> list_ex (\<lambda>skill. skill \<in> set backend_skills)
               (map lower (dict_get (team_skills pd) [])))"
  using assms
  by (auto simp: apply_pre_checks_cascade scalability_contradiction_rule_def Let_def
      list_ex_filter_const verdicts_distinct)

theorem contradictory_input_iff_witness:
  "\<not> static_site_rule react_only_team
   \<and> apply_pre_checks react_only_team = Some contradictory_input_verdict
   \<and> \<not> static_site_rule form_defaults
   \<and> apply_pre_checks form_defaults \<noteq> Some contradictory_input_verdict"
proof -
  have a: "\<not> static_site_rule react_only_team"
    by code_simp
  have b: "lower (dict_get (scalability_needs react_only_team) '''') \<in> set [''high'', ''very high'']
      \<and> (sublist ''no backend'' (lower (dict_get (project_description react_only_team) ''''))
         \<or> sublist ''frontend only'' (lower (dict_get (app_type react_only_team) ''''))
         \<or> ''none'' \<in> set (map lower (dict_get (team_skills react_only_team) []))
         \<or> \<not> list_ex (\<lambda>skill. skill \<in> set backend_skills)
               (map lower (dict_get (team_skills react_only_team) [])))"
    by code_simp
  have c: "\<not> static_site_rule form_defaults"
    by code_simp
  have d: "lower (dict_get (scalability_needs form_defaults) '''') \<notin> set [''high'', ''very high'']"
    by code_simp
  show ?thesis
    using a c contradictory_input_iff [OF a] b contradictory_input_iff [OF c] d
    by blast
qed

text \<open>
  C10. When the lowercased scalability is \<open>high\<close> or \<open>very high\<close> and some team skill
  lowercases to \<open>none\<close>, \<open>apply_pre_checks\<close> returns the Contradictory Input error, whatever
  the other skills are: the filter \<open>if "none" not in team_skills\<close> empties the iteration.
\<close>

theorem none_skill_contradiction:
  assumes "lower (dict_get (scalability_needs pd) '''') \<in> set [''high'', ''very high'']"
    and "list_ex (\<lambda>skill. lower skill = ''none'') (dict_get (team_skills pd) [])"
  shows "apply_pre_checks pd = Some contradictory_input_verdict"
proof -
  from assms(1) have "\<not> static_site_rule pd"
    by (auto simp: static_site_rule_def)
  moreover from assms(2) have "''none'' \<in> set (map lower (dict_get (team_skills pd) []))"
    by (force simp: list_ex_iff image_iff)
  then have "scalability_contradiction_rule pd"
    using assms(1) by (simp add: scalability_contradiction_rule_def Let_def list_ex_filter_const)
  ultimately show ?thesis
    by (simp add: apply_pre_checks_cascade)
qed

theorem none_skill_contradiction_witness:
  "list_ex (\<lambda>skill. lower skill \<in> set backend_skills)
     (dict_get (team_skills python_and_none_team) [])
   \<and> apply_pre_checks python_and_none_team = Some contradictory_input_verdict"
proof -
  have a: "lower (dict_get (scalability_needs python_and_none_team) '''')
             \<in> set [''high'', ''very high'']"
    by code_simp
  have b: "list_ex (\<lambda>skill. lower skill = ''none'')
             (dict_get (team_skills python_and_none_team) [])"
    by code_simp
  have c: "list_ex (\<lambda>skill. lower skill \<in> set backend_skills)
             (dict_get (team_skills python_and_none_team) [])"
    by code_simp
  show ?thesis
    using c none_skill_contradiction [OF a b] by (rule conjI)
qed

section \<open>The response normalizer\<close>

lemma isspace_brackets: "\<not> isspace CHR ''[''" "\<not> isspace CHR '']''"
  by (simp_all add: isspace_def)

lemma set_strip: "set (strip s) \<subseteq> set s"
  unfolding strip_def
  by (metis set_rev set_dropWhileD subsetI)

lemma strip_decomp:
  "\<exists>pre suf. s = pre @ strip s @ suf \<and> list_all isspace pre \<and> list_all isspace suf"
proof -
  let ?d = "dropWhile isspace s"
  have "s = takeWhile isspace s @ ?d" by simp
  moreover have "rev ?d = takeWhile isspace (rev ?d) @ dropWhile isspace (rev ?d)" by simp
  then have "?d = strip s @ rev (takeWhile isspace (rev ?d))"
    unfolding strip_def by (metis rev_append rev_rev_ident)
  ultimately have "s = takeWhile isspace s @ strip s @ rev (takeWhile isspace (rev ?d))"
    by simp
  moreover have "list_all isspace (takeWhile isspace s)"
    by (simp add: list_all_iff) (meson set_takeWhileD)
  moreover have "list_all isspace (rev (takeWhile isspace (rev ?d)))"
    by (simp add: list_all_iff) (meson set_takeWhileD)
  ultimately show ?thesis by blast
qed

lemma py_find_append:
  assumes "c \<notin> set pre" "c \<in> set s"
  shows "py_find (pre @ s @ suf) c = int (length pre) + py_find s c"
  using assms by (auto simp: py_find_def takeWhile_append)

lemma py_rfind_append:
  assumes "c \<notin> set suf" "c \<in> set s"
  shows "py_rfind (pre @ s @ suf) c = int (length pre) + py_rfind s c"
  using assms by (auto simp: py_rfind_def takeWhile_append)

lemma py_find_nonneg: "c \<in> set s \<Longrightarrow> 0 \<le> py_find s c"
  by (simp add: py_find_def)

lemma brackets_survive_strip:
  assumes "CHR ''['' \<in> set raw" and "CHR '']'' \<in> set raw"
    and "py_find raw CHR ''['' < py_rfind raw CHR '']''"
  shows "py_find (strip raw) CHR ''['' \<noteq> - 1
    \<and> py_rfind (strip raw) CHR '']'' + 1 \<noteq> 0
    \<and> py_rfind (strip raw) CHR '']'' + 1 > py_find (strip raw) CHR ''[''"
proof -
  obtain pre suf where d: "raw = pre @ strip raw @ suf"
    and pre: "list_all isspace pre" and suf: "list_all isspace suf"
    using strip_decomp by blast
  have out: "CHR ''['' \<notin> set pre" "CHR '']'' \<notin> set suf" "CHR ''['' \<notin> set suf" "CHR '']'' \<notin> set pre"
    using pre suf isspace_brackets by (auto simp: list_all_iff)
  have "set raw = set pre \<union> set (strip raw) \<union> set suf"
    by (subst d) auto
  with assms(1,2) out have inn: "CHR ''['' \<in> set (strip raw)" "CHR '']'' \<in> set (strip raw)"
    by auto
  have "py_find raw CHR ''['' = int (length pre) + py_find (strip raw) CHR ''[''"
    by (subst d) (rule py_find_append [OF out(1) inn(1)])
  moreover have "py_rfind raw CHR '']'' = int (length pre) + py_rfind (strip raw) CHR '']''"
    by (subst d) (rule py_rfind_append [OF out(2) inn(2)])
  ultimately have "py_find (strip raw) CHR ''['' < py_rfind (strip raw) CHR '']''"
    using assms(3) by simp
  with py_find_nonneg [OF inn(1)] show ?thesis by simp
qed

lemma parse_output_span:
  assumes "CHR ''['' \<in> set raw" and "CHR '']'' \<in> set raw"
    and "py_find raw CHR ''['' < py_rfind raw CHR '']''"
  shows "parse_output json_loads raw =
     (case json_loads (bracket_span raw) of
        Inl e \<Rightarrow> Inl e
      | Inr parsed \<Rightarrow>
          (case parsed of
             JArr items \<Rightarrow> Inr (Recommendations items ''LLM via LangChain'')
           | _ \<Rightarrow> Inl (OtherException ''ValueError''
                        ''LLM output was valid JSON, but not a list.'')))"
  using brackets_survive_strip [OF assms]
  by (simp add: parse_output_def bracket_span_def Let_def)

lemma drop_to_first:
  assumes "c \<in> set s"
  shows "\<exists>tail. drop (length (takeWhile (\<lambda>x. x \<noteq> c) s)) s = c # tail"
proof -
  let ?d = "dropWhile (\<lambda>x. x \<noteq> c) s"
  from assms have ne: "?d \<noteq> []"
    by (simp add: dropWhile_eq_Nil_conv)
  then have "\<not> (hd ?d \<noteq> c)" by (rule hd_dropWhile)
  with ne have "?d = c # tl ?d" by (cases ?d) simp_all
  then show ?thesis
    by (metis dropWhile_eq_drop)
qed

text \<open>
  When both brackets are found in order, the span handed to \<open>json.loads\<close> begins with the
  opening bracket. \<open>json.loads\<close> decodes a text that begins so to a list, or raises; the
  \<open>isinstance\<close> check of the source then never fails, and its \<open>ValueError\<close> is not raised.
\<close>

lemma bracket_span_starts_with_bracket:
  assumes "CHR ''['' \<in> set raw" and "CHR '']'' \<in> set raw"
    and "py_find raw CHR ''['' < py_rfind raw CHR '']''"
  shows "\<exists>rest. bracket_span raw = CHR ''['' # rest"
proof -
  define c where "c = strip raw"
  define k where "k = length (takeWhile (\<lambda>x. x \<noteq> CHR ''['') c)"
  define j where "j = py_rfind c CHR '']'' + 1"
  from brackets_survive_strip [OF assms]
  have found: "py_find c CHR ''['' \<noteq> - 1" and later: "j > py_find c CHR ''[''"
    by (simp_all add: c_def j_def)
  from found have inside: "CHR ''['' \<in> set c"
    by (cases "CHR ''['' \<in> set c") (simp_all add: py_find_def)
  then have start: "py_find c CHR ''['' = int k"
    by (simp add: py_find_def k_def)
  from drop_to_first [OF inside] obtain tail where dropped: "drop k c = CHR ''['' # tail"
    unfolding k_def by blast
  from later start have "k < nat j" by linarith
  then obtain n where n: "nat j - k = Suc n"
    by (cases "nat j - k") simp_all
  have "bracket_span raw = take (nat j - k) (drop k c)"
    by (simp add: bracket_span_def slice_def Let_def c_def [symmetric] start j_def)
  with dropped n show ?thesis by simp
qed

text \<open>
  An exception of \<open>json.loads\<close> other than \<open>JSONDecodeError\<close> reaches the second
  \<open>except\<close> clause.
\<close>

lemma other_exception_chain_error:
  assumes "CHR ''['' \<in> set raw" and "CHR '']'' \<in> set raw"
    and "py_find raw CHR ''['' < py_rfind raw CHR '']''"
    and "json_loads (bracket_span raw) = Inl (OtherException type_name msg)"
  shows "normalize json_loads raw =
      Failure ''LLM_CHAIN_ERROR''
        (''An unexpected error occurred: '' @ type_name @ '' - '' @ msg) (Some raw) None"
  by (simp add: normalize_def parse_output_span [OF assms(1-3)] assms(4) handle_exception_def)

text \<open>
  C5. When the raw text contains no opening square bracket, the normalizer returns the
  fallback result (code \<open>LLM_RESPONSE_NOT_JSON_ARRAY\<close>) whose \<open>raw_text_fallback\<close> is the
  trimmed text. The \<open>try\<close> body returns it without raising, whatever \<open>json.loads\<close>
  would do, so neither \<open>except\<close> clause runs.
\<close>

theorem no_bracket_fallback:
  assumes "CHR ''['' \<notin> set raw"
  shows "parse_output json_loads raw = Inr (UnparsedFallback (strip raw))
    \<and> normalize json_loads raw = UnparsedFallback (strip raw)"
proof -
  from assms set_strip have "CHR ''['' \<notin> set (strip raw)" by blast
  then have "parse_output json_loads raw = Inr (UnparsedFallback (strip raw))"
    by (simp add: parse_output_def py_find_def UnparsedFallback_def Let_def)
  then show ?thesis by (simp add: normalize_def)
qed

theorem no_bracket_fallback_witness:
  "normalize decoder_rejecting prose_reply = UnparsedFallback ''Sorry, I can only answer in prose.''"
proof -
  have a: "CHR ''['' \<notin> set prose_reply" by code_simp
  have b: "strip prose_reply = ''Sorry, I can only answer in prose.''" by code_simp
  show ?thesis
    using no_bracket_fallback [OF a, of decoder_rejecting] b by simp
qed

text \<open>
  C4, as the specification states it, fails. Parsing the span can fail with an exception that
  is not a \<open>JSONDecodeError\<close>: on 993 opening brackets and one closing bracket,
  \<open>json.loads\<close> raises \<open>RecursionError\<close> (CPython 3.11, default recursion limit). Both
  brackets are found in order, the span is the whole text, the first \<open>except\<close> clause
  does not match, and \<open>except Exception\<close> returns the error \<open>LLM_CHAIN_ERROR\<close>, not
  \<open>LLM_JSON_PARSE_ERROR\<close>.
\<close>

theorem parse_failure_counterexample:
  "CHR ''['' \<in> set deep_nesting \<and> CHR '']'' \<in> set deep_nesting
   \<and> py_find deep_nesting CHR ''['' < py_rfind deep_nesting CHR '']''
   \<and> bracket_span deep_nesting = deep_nesting
   \<and> normalize decoder_out_of_stack deep_nesting =
       Failure ''LLM_CHAIN_ERROR''
         ''An unexpected error occurred: RecursionError - maximum recursion depth exceeded while decoding a JSON array from a unicode string''
         (Some deep_nesting) None
   \<and> code (normalize decoder_out_of_stack deep_nesting) \<noteq> ''LLM_JSON_PARSE_ERROR''"
proof -
  have a: "CHR ''['' \<in> set deep_nesting" by (simp add: deep_nesting_def)
  have b: "CHR '']'' \<in> set deep_nesting" by (simp add: deep_nesting_def)
  have c: "py_find deep_nesting CHR ''['' < py_rfind deep_nesting CHR '']''" by code_simp
  have d: "decoder_out_of_stack (bracket_span deep_nesting) =
      Inl (OtherException ''RecursionError''
            ''maximum recursion depth exceeded while decoding a JSON array from a unicode string'')"
    by (simp add: decoder_out_of_stack_def)
  have e: "normalize decoder_out_of_stack deep_nesting =
       Failure ''LLM_CHAIN_ERROR''
         ''An unexpected error occurred: RecursionError - maximum recursion depth exceeded while decoding a JSON array from a unicode string''
         (Some deep_nesting) None"
    using other_exception_chain_error
      [where json_loads = decoder_out_of_stack and raw = deep_nesting, OF a b c d]
    by simp
  have f: "bracket_span deep_nesting = deep_nesting" by code_simp
  show ?thesis
    using a b c e f by simp
qed

text \<open>
  C4, amended. When the raw text contains an opening bracket and, after the first one, a last
  closing bracket, and \<open>json.loads\<close> raises \<open>JSONDecodeError\<close> on the span between them,
  the normalizer returns the error \<open>LLM_JSON_PARSE_ERROR\<close>; its details contain the decoder's
  message and its \<open>raw_text_fallback\<close> is the raw text as received, not trimmed.
\<close>

theorem malformed_json_parse_error:
  assumes "CHR ''['' \<in> set raw" and "CHR '']'' \<in> set raw"
    and "py_find raw CHR ''['' < py_rfind raw CHR '']''"
    and "json_loads (bracket_span raw) = Inl (JSONDecodeError msg)"
  shows "normalize json_loads raw =
      Failure ''LLM_JSON_PARSE_ERROR''
        (''Failed to parse LLM output as JSON. Error: '' @ msg
           @ ''. Raw output was: \<newline>'' @ raw)
        (Some raw) None
    \<and> sublist msg (failure_details (normalize json_loads raw))
    \<and> raw_text_fallback (normalize json_loads raw) = Some raw"
proof -
  have "normalize json_loads raw =
      Failure ''LLM_JSON_PARSE_ERROR''
        (''Failed to parse LLM output as JSON. Error: '' @ msg
           @ ''. Raw output was: \<newline>'' @ raw)
        (Some raw) None"
    by (simp add: normalize_def parse_output_span [OF assms(1-3)] assms(4) handle_exception_def)
  moreover have "sublist msg (''Failed to parse LLM output as JSON. Error: '' @ msg
           @ ''. Raw output was: \<newline>'' @ raw)"
    by (rule sublist_appendI)
  ultimately show ?thesis by simp
qed

theorem malformed_json_parse_error_witness:
  "normalize decoder_rejecting bad_json_reply =
      Failure ''LLM_JSON_PARSE_ERROR''
        ''Failed to parse LLM output as JSON. Error: Expecting property name enclosed in double quotes: line 1 column 3 (char 2). Raw output was: \<newline> [{bad json}]''
        (Some '' [{bad json}]'') None"
proof -
  have a: "CHR ''['' \<in> set bad_json_reply" by code_simp
  have b: "CHR '']'' \<in> set bad_json_reply" by code_simp
  have c: "py_find bad_json_reply CHR ''['' < py_rfind bad_json_reply CHR '']''" by code_simp
  have d: "decoder_rejecting (bracket_span bad_json_reply) = Inl (JSONDecodeError
            ''Expecting property name enclosed in double quotes: line 1 column 3 (char 2)'')"
    by (simp add: decoder_rejecting_def)
  show ?thesis
    using malformed_json_parse_error
      [where json_loads = decoder_rejecting and raw = bad_json_reply, OF a b c d]
    by (simp add: bad_json_reply_def)
qed

section \<open>The prompt composer\<close>

lemma field_labels:
  "capitalize (replace_underscores ''project_description'') = ''Project description''"
  "capitalize (replace_underscores ''app_type'') = ''App type''"
  "capitalize (replace_underscores ''team_skills'') = ''Team skills''"
  "capitalize (replace_underscores ''budget'') = ''Budget''"
  "capitalize (replace_underscores ''timeline'') = ''Timeline''"
  "capitalize (replace_underscores ''scalability_needs'') = ''Scalability needs''"
  by code_simp+

lemma py_format_str: "py_format (PStr s) = s"
  by (simp add: py_format_def)

lemma context_summary_closed_form:
  "context_summary \<lparr>project_description = Some d, app_type = Some a, team_skills = Some ts,
       budget = Some b, timeline = Some t, scalability_needs = Some s\<rparr> =
     ''- Project description: '' @ d @ ''\<newline>- App type: '' @ a
     @ ''\<newline>- Team skills: '' @ py_format (PList ts) @ ''\<newline>- Budget: '' @ b
     @ ''\<newline>- Timeline: '' @ t @ ''\<newline>- Scalability needs: '' @ s"
  by (simp add: context_summary_def dict_items_def field_labels py_format_str)

lemma split_lines_no_newline: "CHR 0x0A \<notin> set x \<Longrightarrow> split_lines x = [x]"
  by (induction x) auto

lemma split_lines_append:
  "CHR 0x0A \<notin> set x \<Longrightarrow> split_lines (x @ CHR 0x0A # y) = x # split_lines y"
  by (induction x) auto

lemma hex_digit_not_newline: "hex_digit k \<noteq> CHR 0x0A" "CHR 0x0A \<noteq> hex_digit k"
proof -
  have "hex_digit k \<in> set ''0123456789abcdef''"
    unfolding hex_digit_def by (rule nth_mem) simp
  then show "hex_digit k \<noteq> CHR 0x0A" "CHR 0x0A \<noteq> hex_digit k"
    by auto
qed

lemma repr_char_no_newline: "q \<noteq> CHR 0x0A \<Longrightarrow> CHR 0x0A \<notin> set (repr_char q c)"
  by (auto simp: repr_char_def hex_digit_not_newline)

lemma py_repr_no_newline: "CHR 0x0A \<notin> set (py_repr s)"
  by (auto simp: py_repr_def Let_def dest: repr_char_no_newline [THEN notE, rotated])

lemma join_no_newline:
  "CHR 0x0A \<notin> set sep \<Longrightarrow> \<forall>p \<in> set parts. CHR 0x0A \<notin> set p \<Longrightarrow> CHR 0x0A \<notin> set (join sep parts)"
  by (induction sep parts rule: join.induct) auto

lemma py_format_list_no_newline: "CHR 0x0A \<notin> set (py_format (PList ts))"
  using join_no_newline [of "'', ''" "map py_repr ts"]
  by (simp add: py_format_def py_repr_no_newline)

text \<open>
  C8, as the specification states it, fails: \<open>capitalize\<close> puts only the first character of
  the name in upper case and lowercases the rest, and every entry begins with a dash. For the
  form's initial values the summary has the line \<open>- App type: Web Application\<close>, and no line
  of it contains the title-cased name \<open>App Type\<close>.
\<close>

theorem title_case_counterexample:
  "title_case (replace_underscores ''app_type'') = ''App Type''
   \<and> split_lines (context_summary form_defaults) =
       [''- Project description: '', ''- App type: Web Application'', ''- Team skills: []'',
        ''- Budget: Medium'', ''- Timeline: Medium (3-6 months)'', ''- Scalability needs: Medium'']
   \<and> \<not> list_ex (sublist (title_case (replace_underscores ''app_type'')))
         (split_lines (context_summary form_defaults))"
  by code_simp

text \<open>
  C8, amended. For project details with all six fields set, none of whose string values
  contains a newline, the context summary has exactly one line per field, in the order of the
  dict, each of the form \<open>- name: value\<close>, where the name is the key with underscores
  replaced by spaces, its first letter capitalized and the rest in lower case
  (\<open>App type\<close>, \<open>Team skills\<close>), and the value is rendered as \<open>str\<close> renders it.
\<close>

theorem context_summary_lines:
  assumes "CHR 0x0A \<notin> set d \<union> set a \<union> set b \<union> set t \<union> set s"
  shows "split_lines (context_summary
       \<lparr>project_description = Some d, app_type = Some a, team_skills = Some ts,
        budget = Some b, timeline = Some t, scalability_needs = Some s\<rparr>) =
     [''- Project description: '' @ d,
      ''- App type: '' @ a,
      ''- Team skills: '' @ py_format (PList ts),
      ''- Budget: '' @ b,
      ''- Timeline: '' @ t,
      ''- Scalability needs: '' @ s]"
proof -
  have l1: "CHR 0x0A \<notin> set (''- Project description: '' @ d)" using assms by simp
  have l2: "CHR 0x0A \<notin> set (''- App type: '' @ a)" using assms by simp
  have l3: "CHR 0x0A \<notin> set (''- Team skills: '' @ py_format (PList ts))"
    using py_format_list_no_newline by simp
  have l4: "CHR 0x0A \<notin> set (''- Budget: '' @ b)" using assms by simp
  have l5: "CHR 0x0A \<notin> set (''- Timeline: '' @ t)" using assms by simp
  have l6: "CHR 0x0A \<notin> set (''- Scalability needs: '' @ s)" using assms by simp
  have "context_summary
       \<lparr>project_description = Some d, app_type = Some a, team_skills = Some ts,
        budget = Some b, timeline = Some t, scalability_needs = Some s\<rparr> =
     (''- Project description: '' @ d) @ CHR 0x0A #
     (''- App type: '' @ a) @ CHR 0x0A #
     (''- Team skills: '' @ py_format (PList ts)) @ CHR 0x0A #
     (''- Budget: '' @ b) @ CHR 0x0A #
     (''- Timeline: '' @ t) @ CHR 0x0A #
     (''- Scalability needs: '' @ s)"
    by (simp add: context_summary_closed_form)
  then show ?thesis
    by (simp only: split_lines_append [OF l1] split_lines_append [OF l2]
        split_lines_append [OF l3] split_lines_append [OF l4] split_lines_append [OF l5]
        split_lines_no_newline [OF l6])
qed

theorem context_summary_lines_witness:
  "split_lines (context_summary python_and_none_team) =
     [''- Project description: '', ''- App type: Web Application'',
      ''- Team skills: ['' @ [CHR 0x27] @ ''Python'' @ [CHR 0x27] @ '', '' @ [CHR 0x27] @ ''None'' @ [CHR 0x27] @ '']'',
      ''- Budget: Medium'', ''- Timeline: Medium (3-6 months)'', ''- Scalability needs: High'']"
proof -
  have h: "CHR 0x0A \<notin> set '''' \<union> set ''Web Application'' \<union> set ''Medium''
     \<union> set ''Medium (3-6 months)'' \<union> set ''High''"
    by simp
  have f: "py_format (PList [''Python'', ''None'']) = ''['' @ [CHR 0x27] @ ''Python'' @ [CHR 0x27] @ '', '' @ [CHR 0x27] @ ''None'' @ [CHR 0x27] @ '']''"
    by code_simp
  show ?thesis
    using context_summary_lines [OF h, of "[''Python'', ''None'']"] f
    by (simp add: python_and_none_team_def form_defaults_def)
qed

section \<open>The memory window\<close>

lemma save_context_fold: "foldl save_context [] turns = drop (length turns - K) turns"
proof (induction turns rule: rev_induct)
  case Nil
  show ?case by simp
next
  case (snoc t turns)
  show ?case
  proof (cases "length turns < K")
    case True
    with snoc show ?thesis by (simp add: save_context_def)
  next
    case False
    then have "length turns - K + 1 = Suc (length turns) - K" by simp
    with snoc False show ?thesis
      by (simp add: save_context_def Let_def Suc_diff_le)
  qed
qed

text \<open>
  C9. Starting from an empty window, after any sequence of turns the window holds at most five
  of them: the last five in the order in which they were appended, which is the chat history
  shown to the model. After six turns the first one is gone and the other five remain in order.
\<close>

theorem memory_window_last_five:
  "length (foldl save_context [] turns) \<le> 5
   \<and> chat_history (foldl save_context [] turns) = drop (length turns - 5) turns
   \<and> chat_history (foldl save_context [] [t1, t2, t3, t4, t5, t6]) = [t2, t3, t4, t5, t6]"
proof -
  have window: "foldl save_context [] turns = drop (length turns - 5) turns"
    by (simp add: save_context_fold K_def)
  have "length (drop (length turns - 5) turns) \<le> 5"
    by auto
  moreover have "foldl save_context [] [t1, t2, t3, t4, t5, t6] = [t2, t3, t4, t5, t6]"
    by (simp only: save_context_fold) (simp add: K_def)
  ultimately show ?thesis
    by (simp only: window chat_history_def)
qed

section \<open>The chat turn\<close>

lemma verdict_cases:
  assumes "apply_pre_checks pd = Some verdict"
  shows "verdict = static_site_verdict \<or> verdict = contradictory_input_verdict
    \<or> verdict = unrealistic_scope_verdict"
  using assms by (auto simp: apply_pre_checks_cascade split: if_splits)

lemma chat_turn_rule_error:
  assumes "user_query \<noteq> []"
    and "apply_pre_checks (st_project_details s) = Some (RuleError err det src)"
  shows "chat_turn json_loads user_query s =
     \<lparr>effects = [Markdown user_query,
                 StError (''**Rule-Based Check Failed:** '' @ err @ '' - '' @ det)],
      state = s\<lparr>st_messages := st_messages s @
                 [(''user'', Text user_query),
                  (''assistant'', Text (''**Rule-Based Check Failed:** '' @ err @ '' - '' @ det))]\<rparr>,
      raised = None\<rparr>"
  using assms by (simp add: chat_turn_def Let_def display_structured_def)

lemma set_source_jamstack:
  "set_source src [jamstack_recommendation] =
     Inr [case jamstack_recommendation of JObj entries \<Rightarrow> JObj (dict_set entries ''source'' (JStr src)) | other \<Rightarrow> other]"
  unfolding jamstack_recommendation_def by simp

lemma chat_turn_static_site:
  assumes "user_query \<noteq> []"
    and "apply_pre_checks (st_project_details s) = Some static_site_verdict"
  shows "chat_turn json_loads user_query s =
     \<lparr>effects = [Markdown user_query, StSuccess, Rerun],
      state = s\<lparr>st_messages := st_messages s @
                 [(''user'', Text user_query),
                  (''assistant'', verdict_content static_site_verdict)]\<rparr>,
      raised = None\<rparr>"
  using assms(1) assms(2) [unfolded static_site_verdict_def]
  by (simp add: chat_turn_def Let_def display_structured_def set_source_jamstack
      verdict_content_def static_site_verdict_def)

text \<open>
  C3. On a turn (a chat input that is not empty) for which \<open>apply_pre_checks\<close> returns a
  verdict, no effect of the turn is a call of the model, the turn raises nothing, and the session
  changes only in its messages: the user's query and the rule verdict (the error text, or the
  recommendations tagged with their source) are appended. The memory, the model client and
  the debugging entries stay as they were, whatever the model and \<open>json.loads\<close> would do.
\<close>

theorem rule_verdict_skips_model:
  assumes "user_query \<noteq> []"
    and "apply_pre_checks (st_project_details s) = Some verdict"
  shows "\<not> list_ex is_model_call (effects (chat_turn json_loads user_query s))
    \<and> state (chat_turn json_loads user_query s) =
        s\<lparr>st_messages := st_messages s
             @ [(''user'', Text user_query), (''assistant'', verdict_content verdict)]\<rparr>
    \<and> raised (chat_turn json_loads user_query s) = None"
proof -
  consider (static) "verdict = static_site_verdict"
    | (error) err det src where "verdict = RuleError err det src"
    using verdict_cases [OF assms(2)]
    by (auto simp: contradictory_input_verdict_def unrealistic_scope_verdict_def)
  then show ?thesis
  proof cases
    case static
    with assms show ?thesis
      by (simp add: chat_turn_static_site)
  next
    case error
    with assms show ?thesis
      by (simp add: chat_turn_rule_error verdict_content_def)
  qed
qed

theorem rule_verdict_skips_model_witness:
  "effects (chat_turn decoder_rejecting ''recommend'' (fresh_session portfolio_site))
      = [Markdown ''recommend'', StSuccess, Rerun]
   \<and> st_memory (state (chat_turn decoder_rejecting ''recommend'' (fresh_session portfolio_site))) = Some []
   \<and> st_messages (state (chat_turn decoder_rejecting ''recommend'' (fresh_session python_and_none_team)))
      = [(''user'', Text ''recommend''), (''assistant'', verdict_content contradictory_input_verdict)]
   \<and> list_ex is_model_call
        (effects (chat_turn decoder_rejecting ''recommend'' (fresh_session form_defaults)))"
proof -
  have q: "''recommend'' \<noteq> []" by simp
  have a: "apply_pre_checks (st_project_details (fresh_session portfolio_site)) = Some static_site_verdict"
    by code_simp
  have b: "apply_pre_checks (st_project_details (fresh_session python_and_none_team))
     = Some contradictory_input_verdict"
    by code_simp
  have c: "effects (chat_turn decoder_rejecting ''recommend'' (fresh_session portfolio_site))
      = [Markdown ''recommend'', StSuccess, Rerun]"
    by code_simp
  have d: "list_ex is_model_call
        (effects (chat_turn decoder_rejecting ''recommend'' (fresh_session form_defaults)))"
    by code_simp
  show ?thesis
    using rule_verdict_skips_model [OF q a, of decoder_rejecting]
      rule_verdict_skips_model [OF q b, of decoder_rejecting] c d
    by (simp add: fresh_session_def)
qed

end
